theory Spec2Isabelle
  imports Main "HOL-Library.Word" "HOL-Library.Sublist"
begin

section \<open>Python strings\<close>

text \<open>
  A Python \<open>str\<close> is a sequence of Unicode code points; it is modelled as a list of
  natural numbers, one per code point. \<open>str\<close> embeds an ASCII literal.
\<close>

type_synonym pystr = "nat list"

definition str :: "string \<Rightarrow> pystr" where
  "str s = map of_char s"

text \<open>
  \<open>str.isspace\<close> for one code point: the ASCII white space (tab to carriage return,
  the four separators 28 to 31, space) and the Unicode white space beyond ASCII.
\<close>

definition py_isspace :: "nat \<Rightarrow> bool" where
  "py_isspace c =
     ((9 \<le> c \<and> c \<le> 13) \<or> (28 \<le> c \<and> c \<le> 32) \<or> c = 133 \<or> c = 160 \<or> c = 5760
      \<or> (8192 \<le> c \<and> c \<le> 8202) \<or> c = 8232 \<or> c = 8233 \<or> c = 8239 \<or> c = 8287
      \<or> c = 12288)"

text \<open>\<open>s.strip()\<close>: leading and trailing white space removed.\<close>

definition py_strip :: "pystr \<Rightarrow> pystr" where
  "py_strip s = rev (dropWhile py_isspace (rev (dropWhile py_isspace s)))"

text \<open>\<open>s.replace(old, new)\<close> for a one-character \<open>old\<close>, the only use in the source.\<close>

definition py_replace :: "nat \<Rightarrow> pystr \<Rightarrow> pystr \<Rightarrow> pystr" where
  "py_replace old new s = concat (map (\<lambda>c. if c = old then new else [c]) s)"

text \<open>
  \<open>s.lower()\<close> on ASCII text. The source lowers text only after \<open>unidecode\<close>, whose
  result is ASCII, so the case mapping of other code points is never consulted.
\<close>

definition py_lower :: "pystr \<Rightarrow> pystr" where
  "py_lower s = map (\<lambda>c. if 65 \<le> c \<and> c \<le> 90 then c + 32 else c) s"

text \<open>
  \<open>s.split()\<close> without arguments: the maximal runs of non-space characters, in order;
  no empty token is produced.
\<close>

function py_split :: "pystr \<Rightarrow> pystr list" where
  "py_split s =
     (let r = dropWhile py_isspace s
      in if r = [] then []
         else takeWhile (\<lambda>c. \<not> py_isspace c) r # py_split (dropWhile (\<lambda>c. \<not> py_isspace c) r))"
  by pat_completeness auto
termination
proof (relation "measure length")
  show "wf (measure length)" by simp
next
  fix s r :: pystr
  assume r: "r = dropWhile py_isspace s" and ne: "r \<noteq> []"
  from r ne have "\<not> py_isspace (hd r)"
    using hd_dropWhile by metis
  with ne have "length (dropWhile (\<lambda>c. \<not> py_isspace c) r) < length r"
    by (cases r) (simp_all add: le_imp_less_Suc length_dropWhile_le)
  moreover have "length r \<le> length s"
    using r by (simp add: length_dropWhile_le)
  ultimately show "(dropWhile (\<lambda>c. \<not> py_isspace c) r, s) \<in> measure length"
    by simp
qed

declare py_split.simps [simp del]

text \<open>\<open>sep.join(words)\<close>.\<close>

fun py_join :: "pystr \<Rightarrow> pystr list \<Rightarrow> pystr" where
  "py_join sep [] = []"
| "py_join sep [w] = w"
| "py_join sep (w # v # ws) = w @ sep @ py_join sep (v # ws)"

section \<open>The external transliteration library\<close>

text \<open>
  \<open>unidecode\<close> is a third-party library: it leaves every ASCII character as it is and
  replaces any other code point by the ASCII string its tables hold for it (possibly
  empty). The tables are a parameter \<open>tbl\<close> of the model; an ASCII character is a
  7-bit word, so a transliteration is ASCII whatever the table.
\<close>

type_synonym translit = "nat \<Rightarrow> 7 word list"

definition unidecode :: "translit \<Rightarrow> pystr \<Rightarrow> pystr" where
  "unidecode tbl s = concat (map (\<lambda>c. if c < 128 then [c] else map unat (tbl c)) s)"

text \<open>A fragment of the library's table, for evaluating the functions on concrete text.\<close>

definition latin_fragment :: translit where
  "latin_fragment c =
     (if c = 233 then [101]
      else if c = 252 then [117]
      else if c = 223 then [115, 115]
      else [])"

section \<open>Search-key normalisation\<close>

text \<open>
  \<open>re.sub(f'{escaped_char}+', char, text)\<close> for a one-character \<open>char\<close>: every maximal
  run of the character becomes one occurrence.
\<close>

fun squeeze :: "nat \<Rightarrow> pystr \<Rightarrow> pystr" where
  "squeeze c [] = []"
| "squeeze c [x] = [x]"
| "squeeze c (x # y # zs) =
     (if x = c \<and> y = c then squeeze c (y # zs) else x # squeeze c (y # zs))"

definition normalize_repeated_chars :: "pystr \<Rightarrow> nat \<Rightarrow> pystr" where
  "normalize_repeated_chars text char = py_strip (squeeze char text)"

text \<open>
  The substitution dictionary in its insertion order: plus sign, ampersand, trade mark
  sign (8482), copyright sign (169), registered sign (174).
\<close>

definition substitutions :: "(nat \<times> pystr) list" where
  "substitutions =
     [(43, str ''plus''), (38, str ''and''), (8482, []), (169, []), (174, [])]"

definition replace_invalid_chars :: "pystr \<Rightarrow> pystr" where
  "replace_invalid_chars title =
     fold (\<lambda>(value1, value2) t. py_replace value1 (str '' '' @ value2 @ str '' '') t)
       substitutions title"

definition get_valid_search_key :: "translit \<Rightarrow> pystr \<Rightarrow> pystr" where
  "get_valid_search_key tbl search_key =
     py_strip (normalize_repeated_chars (unidecode tbl (replace_invalid_chars search_key)) 32)"

text \<open>The character class \<open>[a-z0-9]\<close>.\<close>

definition is_key_char :: "nat \<Rightarrow> bool" where
  "is_key_char c = ((97 \<le> c \<and> c \<le> 122) \<or> (48 \<le> c \<and> c \<le> 57))"

definition create_db_search_key :: "translit \<Rightarrow> pystr \<Rightarrow> pystr" where
  "create_db_search_key tbl title =
     py_strip (filter is_key_char (py_lower (get_valid_search_key tbl title)))"

section \<open>Match expressions\<close>

definition prepare_search_key :: "pystr \<Rightarrow> pystr" where
  "prepare_search_key search_key =
     (let words = py_split search_key;
          escaped_words = map (py_replace 34 [34, 34]) words;
          quoted_words = map (\<lambda>word. [34] @ word @ [34]) escaped_words
      in py_join [32] quoted_words)"

section \<open>The catalogue database\<close>

text \<open>
  The relations the queries read. A row of \<open>entries\<close> carries its rowid beside the five
  selected columns, named as the queries name them (\<open>e.slug\<close>, \<open>e.rom_id\<close>, ...); \<open>entries_fts\<close> holds one indexed \<open>search_key\<close> per rowid;
  \<open>regions_entries\<close> holds (entry slug, region code) pairs; a link belongs to the entry
  whose slug stands beside it.
\<close>

record entry_row =
  e_slug :: pystr
  e_rom_id :: "pystr option"
  e_title :: pystr
  e_platform :: pystr
  e_boxart_url :: "pystr option"

record link =
  link_name :: pystr
  link_type :: pystr
  link_format :: pystr
  link_url :: pystr
  link_filename :: pystr
  link_host :: pystr
  link_size :: int
  link_size_str :: pystr
  link_source_url :: pystr

record database =
  entries :: "(nat \<times> entry_row) list"
  entries_fts :: "(nat \<times> pystr) list"
  regions_entries :: "(pystr \<times> pystr) list"
  links :: "(pystr \<times> link) list"
  platforms_table :: "(pystr \<times> pystr \<times> pystr) list"
  regions_table :: "(pystr \<times> pystr) list"

text \<open>
  The exceptions \<open>handle_exception\<close> tells apart: \<open>sqlite3.OperationalError\<close>, any other
  \<open>sqlite3.DatabaseError\<close>, \<open>ValueError\<close>, and any other \<open>Exception\<close>.
\<close>

datatype exn = OperationalError | DatabaseError | ValueError | OtherException

text \<open>
  A cursor on an open connection: the tables it reads, the full-text engine's \<open>MATCH\<close>
  (indexed text, match expression; the engine is outside the repository) and, for a
  connection whose queries fail, the exception \<open>cur.execute\<close> raises.
\<close>

record cursor =
  tables :: database
  fts_match :: "pystr \<Rightarrow> pystr \<Rightarrow> bool"
  exec_error :: "exn option"

definition execute :: "cursor \<Rightarrow> (cursor \<Rightarrow> 'a) \<Rightarrow> exn + 'a" where
  "execute cur q = (case exec_error cur of Some x \<Rightarrow> Inl x | None \<Rightarrow> Inr (q cur))"

section \<open>The queries of \<open>get_search\<close>\<close>

text \<open>
  The SQL text \<open>get_search\<close> assembles, as a value: which joins were appended, the
  \<open>WHERE\<close> clauses in the order they were appended, each shown with the parameters
  bound to its placeholders, and for the paginated query the \<open>ORDER BY\<close> parameter (if
  the clause is present), \<open>LIMIT\<close> and \<open>OFFSET\<close>.
\<close>

datatype predicate =
    FtsMatch pystr
  | PlatformIn "pystr list"
  | RegionInOrNull "pystr list"
  | RomIdEq pystr

record query =
  join_fts :: bool
  left_join_regions :: bool
  where_clauses :: "predicate list"

record paged_query =
  base :: query
  order_by :: "pystr option"
  limit :: int
  offset :: int

text \<open>
  A row of the joined relation: the entry's selected columns, \<open>fts.search_key\<close> (absent
  when the index is not joined) and \<open>re.region\<close> (\<open>NULL\<close> when the left join finds no
  association, or is not made).
\<close>

type_synonym joined = "entry_row \<times> pystr option \<times> pystr option"

definition fts_side :: "database \<Rightarrow> query \<Rightarrow> nat \<Rightarrow> pystr option list" where
  "fts_side db q rid =
     (if join_fts q then map (\<lambda>(r, k). Some k) (filter (\<lambda>(r, k). r = rid) (entries_fts db))
      else [None])"

definition region_side :: "database \<Rightarrow> query \<Rightarrow> entry_row \<Rightarrow> pystr option list" where
  "region_side db q e =
     (if left_join_regions q
      then (let m = filter (\<lambda>(en, r). en = e_slug e) (regions_entries db)
            in if m = [] then [None] else map (\<lambda>(en, r). Some r) m)
      else [None])"

definition join_rows :: "database \<Rightarrow> query \<Rightarrow> joined list" where
  "join_rows db q =
     concat (map (\<lambda>(rid, e).
       concat (map (\<lambda>k. map (\<lambda>r. (e, k, r)) (region_side db q e)) (fts_side db q rid)))
       (entries db))"

text \<open>A \<open>WHERE\<close> clause is satisfied when it evaluates to true (not false, not \<open>NULL\<close>).\<close>

fun holds :: "(pystr \<Rightarrow> pystr \<Rightarrow> bool) \<Rightarrow> predicate \<Rightarrow> joined \<Rightarrow> bool" where
  "holds m (FtsMatch x) (e, k, r) = (case k of None \<Rightarrow> False | Some key \<Rightarrow> m key x)"
| "holds m (PlatformIn ps) (e, k, r) = (e_platform e \<in> set ps)"
| "holds m (RegionInOrNull rs) (e, k, r) = (case r of None \<Rightarrow> True | Some x \<Rightarrow> x \<in> set rs)"
| "holds m (RomIdEq x) (e, k, r) = (e_rom_id e = Some x)"

text \<open>
  \<open>SELECT DISTINCT\<close>: a row whose selected columns occurred in an earlier row is
  dropped.
\<close>

fun first_occurrences :: "('a \<Rightarrow> 'b) \<Rightarrow> 'b list \<Rightarrow> 'a list \<Rightarrow> 'a list" where
  "first_occurrences f seen [] = []"
| "first_occurrences f seen (x # xs) =
     (if f x \<in> set seen then first_occurrences f seen xs
      else x # first_occurrences f (f x # seen) xs)"

definition select_distinct :: "cursor \<Rightarrow> query \<Rightarrow> joined list" where
  "select_distinct cur q =
     first_occurrences fst []
       (filter (\<lambda>row. list_all (\<lambda>p. holds (fts_match cur) p row) (where_clauses q))
          (join_rows (tables cur) q))"

text \<open>\<open>SELECT COUNT(*) FROM (base_query)\<close>.\<close>

definition run_count :: "query \<Rightarrow> cursor \<Rightarrow> int" where
  "run_count q cur = int (length (select_distinct cur q))"

text \<open>
  SQLite's \<open>LIKE\<close>: the percent sign (37) matches any run of characters, the underscore
  (95) any one character, and ASCII letters match without regard to case.
\<close>

definition like_fold :: "nat \<Rightarrow> nat" where
  "like_fold c = (if 65 \<le> c \<and> c \<le> 90 then c + 32 else c)"

fun like :: "pystr \<Rightarrow> pystr \<Rightarrow> bool" where
  "like [] xs = (xs = [])"
| "like (p # ps) [] = (p = 37 \<and> like ps [])"
| "like (p # ps) (x # xs) =
     (if p = 37 then like ps (x # xs) \<or> like (p # ps) xs
      else (p = 95 \<or> like_fold p = like_fold x) \<and> like ps xs)"

text \<open>
  \<open>ORDER BY (fts.search_key LIKE ? || '%') DESC\<close>: true first, then false, then \<open>NULL\<close>.
  The sort is over the distinct rows; rows of equal rank keep some order the engine
  chooses (here: the order they had).
\<close>

definition order_rank :: "pystr \<Rightarrow> joined \<Rightarrow> nat" where
  "order_rank p row =
     (case fst (snd row) of None \<Rightarrow> 2 | Some k \<Rightarrow> if like (p @ [37]) k then 0 else 1)"

text \<open>\<open>LIMIT\<close> and \<open>OFFSET\<close>: a negative limit is no limit, a negative offset is zero.\<close>

definition sql_limit :: "int \<Rightarrow> int \<Rightarrow> 'a list \<Rightarrow> 'a list" where
  "sql_limit n off xs = (let ys = drop (nat off) xs in if n < 0 then ys else take (nat n) ys)"

definition ordered_rows :: "paged_query \<Rightarrow> cursor \<Rightarrow> joined list" where
  "ordered_rows pq cur =
     (case order_by pq of
        None \<Rightarrow> select_distinct cur (base pq)
      | Some p \<Rightarrow> sort_key (order_rank p) (select_distinct cur (base pq)))"

definition run_paged :: "paged_query \<Rightarrow> cursor \<Rightarrow> joined list" where
  "run_paged pq cur = sql_limit (limit pq) (offset pq) (ordered_rows pq cur)"

section \<open>Responses\<close>

record hydrated =
  entry :: entry_row
  entry_regions :: "pystr list"
  entry_links :: "link list"

record search_data =
  results :: "hydrated list"
  current_results :: int
  total_results :: int
  current_page :: int
  total_pages :: int

datatype payload =
    Empty
  | Search search_data
  | Entry hydrated
  | Platforms "pystr \<rightharpoonup> pystr \<times> pystr"
  | Regions "pystr \<rightharpoonup> pystr"
  | Info int

record response =
  info :: "string \<rightharpoonup> string"
  data :: payload

definition build_response :: "(string \<rightharpoonup> string) option \<Rightarrow> payload option \<Rightarrow> response" where
  "build_response i d =
     \<lparr>info = (case i of None \<Rightarrow> Map.empty | Some m \<Rightarrow> m),
      data = (case d of None \<Rightarrow> Empty | Some x \<Rightarrow> x)\<rparr>"

section \<open>The decorators\<close>

text \<open>
  \<open>with_db\<close>: \<open>sqlite3.connect\<close> either raises or yields a connection, whose cursor is
  passed to the function; the \<open>finally\<close> block closes both and the function's result or
  exception passes through. The outcome of \<open>connect\<close> is the parameter \<open>con\<close>.
\<close>

definition with_db :: "exn + cursor \<Rightarrow> (cursor \<Rightarrow> exn + 'a) \<Rightarrow> exn + 'a" where
  "with_db con func = (case con of Inl x \<Rightarrow> Inl x | Inr cur \<Rightarrow> func cur)"

definition handle_exception :: "exn + response \<Rightarrow> exn + response" where
  "handle_exception r =
     (case r of
        Inr v \<Rightarrow> Inr v
      | Inl OperationalError \<Rightarrow>
          Inr (build_response (Some [''error'' \<mapsto> ''Database operation failed'']) None)
      | Inl DatabaseError \<Rightarrow>
          Inr (build_response (Some [''error'' \<mapsto> ''A database error occurred'']) None)
      | Inl ValueError \<Rightarrow>
          Inr (build_response (Some [''error'' \<mapsto> ''Invalid input provided'']) None)
      | Inl OtherException \<Rightarrow>
          Inr (build_response (Some [''error'' \<mapsto> ''An unexpected error occurred'']) None))"

section \<open>The operations\<close>

text \<open>Python's truth value of an \<open>Optional[str]\<close>: neither \<open>None\<close> nor empty.\<close>

definition truthy :: "pystr option \<Rightarrow> bool" where
  "truthy s = (case s of None \<Rightarrow> False | Some x \<Rightarrow> x \<noteq> [])"

text \<open>
  The base query of \<open>get_search\<close>, from the filters after \<open>platforms or []\<close> and
  \<open>regions or []\<close>.
\<close>

definition base_query :: "pystr option \<Rightarrow> pystr list \<Rightarrow> pystr list \<Rightarrow> pystr option \<Rightarrow> query" where
  "base_query search_key platforms regions rom_id =
     \<lparr>join_fts = truthy search_key,
      left_join_regions = (regions \<noteq> []),
      where_clauses =
        (case search_key of None \<Rightarrow> []
         | Some k \<Rightarrow> if k = [] then [] else [FtsMatch (prepare_search_key k)])
        @ (if platforms = [] then [] else [PlatformIn platforms])
        @ (if regions = [] then [] else [RegionInOrNull regions])
        @ (case rom_id of None \<Rightarrow> []
           | Some i \<Rightarrow> if i = [] then [] else [RomIdEq i])\<rparr>"

definition final_query :: "translit \<Rightarrow> pystr option \<Rightarrow> query \<Rightarrow> int \<Rightarrow> int \<Rightarrow> paged_query" where
  "final_query tbl search_key q max_results off =
     \<lparr>base = q,
      order_by =
        (case search_key of None \<Rightarrow> None
         | Some k \<Rightarrow> if k = [] then None else Some (create_db_search_key tbl k)),
      limit = max_results,
      offset = off\<rparr>"

definition select_regions :: "pystr \<Rightarrow> cursor \<Rightarrow> pystr list" where
  "select_regions s cur = map snd (filter (\<lambda>(en, r). en = s) (regions_entries (tables cur)))"

definition select_links :: "pystr \<Rightarrow> cursor \<Rightarrow> link list" where
  "select_links s cur = map snd (filter (\<lambda>(en, l). en = s) (links (tables cur)))"

text \<open>The two queries that attach an entry's regions and links.\<close>

definition hydrate :: "cursor \<Rightarrow> entry_row \<Rightarrow> exn + hydrated" where
  "hydrate cur e =
     (case execute cur (select_regions (e_slug e)) of
        Inl x \<Rightarrow> Inl x
      | Inr rs \<Rightarrow>
          (case execute cur (select_links (e_slug e)) of
             Inl x \<Rightarrow> Inl x
           | Inr ls \<Rightarrow> Inr \<lparr>entry = e, entry_regions = rs, entry_links = ls\<rparr>))"

fun hydrate_all :: "cursor \<Rightarrow> entry_row list \<Rightarrow> exn + hydrated list" where
  "hydrate_all cur [] = Inr []"
| "hydrate_all cur (e # es) =
     (case hydrate cur e of
        Inl x \<Rightarrow> Inl x
      | Inr h \<Rightarrow> (case hydrate_all cur es of Inl x \<Rightarrow> Inl x | Inr hs \<Rightarrow> Inr (h # hs)))"

text \<open>
  The body of \<open>get_search\<close> (the function under the decorators), given the cursor.
  \<open>//\<close> is floor division, as \<open>div\<close> on \<open>int\<close>.
\<close>

definition get_search_body ::
  "translit \<Rightarrow> cursor \<Rightarrow> pystr option \<Rightarrow> pystr list option \<Rightarrow> pystr list option \<Rightarrow>
   pystr option \<Rightarrow> int \<Rightarrow> int \<Rightarrow> exn + response" where
  "get_search_body tbl cur search_key platforms regions rom_id max_results page =
     (let platforms = (case platforms of None \<Rightarrow> [] | Some ps \<Rightarrow> ps);
          regions = (case regions of None \<Rightarrow> [] | Some rs \<Rightarrow> rs);
          max_results = max 1 (min max_results 100);
          page = max 1 page;
          q = base_query search_key platforms regions rom_id
      in case execute cur (run_count q) of
           Inl x \<Rightarrow> Inl x
         | Inr total_results' \<Rightarrow>
             (let total_pages' =
                    (if max_results > 0
                     then (total_results' + max_results - 1) div max_results else 1);
                  page = min page total_pages';
                  off = (page - 1) * max_results;
                  fq = final_query tbl search_key q max_results off
              in case execute cur (run_paged fq) of
                   Inl x \<Rightarrow> Inl x
                 | Inr rows \<Rightarrow>
                     (case hydrate_all cur (map fst rows) of
                        Inl x \<Rightarrow> Inl x
                      | Inr results' \<Rightarrow>
                          Inr (build_response (Some Map.empty)
                            (Some (Search
                              \<lparr>results = results',
                               current_results = int (length results'),
                               total_results = total_results',
                               current_page = page,
                               total_pages = total_pages'\<rparr>))))))"

text \<open>
  \<open>ORDER BY RANDOM() LIMIT 1\<close>: some row of a non-empty table, none of an empty one.
  The engine's random choice is the parameter \<open>pick\<close>.
\<close>

definition random_row :: "nat \<Rightarrow> cursor \<Rightarrow> entry_row option" where
  "random_row pick cur =
     (let rows = map snd (entries (tables cur))
      in if rows = [] then None else Some (rows ! (pick mod length rows)))"

definition select_by_slug :: "pystr \<Rightarrow> cursor \<Rightarrow> entry_row option" where
  "select_by_slug s cur = find (\<lambda>e. e_slug e = s) (map snd (entries (tables cur)))"

definition entry_response :: "cursor \<Rightarrow> entry_row \<Rightarrow> exn + response" where
  "entry_response cur e =
     (case hydrate cur e of
        Inl x \<Rightarrow> Inl x
      | Inr h \<Rightarrow> Inr (build_response (Some Map.empty) (Some (Entry h))))"

definition get_entry_body :: "nat \<Rightarrow> cursor \<Rightarrow> pystr option \<Rightarrow> bool \<Rightarrow> exn + response" where
  "get_entry_body pick cur slug rand =
     (if rand
      then (case execute cur (random_row pick) of
              Inl x \<Rightarrow> Inl x
            | Inr None \<Rightarrow> Inr (build_response None None)
            | Inr (Some e) \<Rightarrow> entry_response cur e)
      else (case slug of
              None \<Rightarrow> Inr (build_response (Some [''error'' \<mapsto> ''Slug is required'']) None)
            | Some s \<Rightarrow>
                if s = []
                then Inr (build_response (Some [''error'' \<mapsto> ''Slug is required'']) None)
                else (case execute cur (select_by_slug s) of
                        Inl x \<Rightarrow> Inl x
                      | Inr None \<Rightarrow>
                          Inr (build_response (Some [''error'' \<mapsto> ''Entry not found'']) None)
                      | Inr (Some e) \<Rightarrow> entry_response cur e)))"

text \<open>A dictionary comprehension over rows: a later row replaces an earlier one.\<close>

definition get_platforms_body :: "cursor \<Rightarrow> exn + response" where
  "get_platforms_body cur =
     (case execute cur (\<lambda>c. platforms_table (tables c)) of
        Inl x \<Rightarrow> Inl x
      | Inr rows \<Rightarrow>
          Inr (build_response (Some Map.empty) (Some (Platforms (map_of (rev rows))))))"

definition get_regions_body :: "cursor \<Rightarrow> exn + response" where
  "get_regions_body cur =
     (case execute cur (\<lambda>c. regions_table (tables c)) of
        Inl x \<Rightarrow> Inl x
      | Inr rows \<Rightarrow>
          Inr (build_response (Some Map.empty) (Some (Regions (map_of (rev rows))))))"

definition get_info_body :: "cursor \<Rightarrow> exn + response" where
  "get_info_body cur =
     (case execute cur (\<lambda>c. int (length (entries (tables c)))) of
        Inl x \<Rightarrow> Inl x
      | Inr total_entries \<Rightarrow> Inr (build_response (Some Map.empty) (Some (Info total_entries))))"

text \<open>
  The operations as the module exports them: \<open>@with_db\<close> is the outer decorator and
  \<open>@handle_exception\<close> the inner one, so \<open>with_db\<close> calls the function that
  \<open>handle_exception\<close> built.
\<close>

definition get_search ::
  "translit \<Rightarrow> exn + cursor \<Rightarrow> pystr option \<Rightarrow> pystr list option \<Rightarrow> pystr list option \<Rightarrow>
   pystr option \<Rightarrow> int \<Rightarrow> int \<Rightarrow> exn + response" where
  "get_search tbl con search_key platforms regions rom_id max_results page =
     with_db con (\<lambda>cur. handle_exception
       (get_search_body tbl cur search_key platforms regions rom_id max_results page))"

definition get_entry :: "nat \<Rightarrow> exn + cursor \<Rightarrow> pystr option \<Rightarrow> bool \<Rightarrow> exn + response" where
  "get_entry pick con slug rand =
     with_db con (\<lambda>cur. handle_exception (get_entry_body pick cur slug rand))"

definition get_platforms :: "exn + cursor \<Rightarrow> exn + response" where
  "get_platforms con = with_db con (\<lambda>cur. handle_exception (get_platforms_body cur))"

definition get_regions :: "exn + cursor \<Rightarrow> exn + response" where
  "get_regions con = with_db con (\<lambda>cur. handle_exception (get_regions_body cur))"

definition get_info :: "exn + cursor \<Rightarrow> exn + response" where
  "get_info con = with_db con (\<lambda>cur. handle_exception (get_info_body cur))"

section \<open>The match expression as the specification words it\<close>

text \<open>
  The tokens of a text, scanned character by character: a white-space character closes
  the token being read, any other character extends it.
\<close>

fun tokens_from :: "pystr \<Rightarrow> pystr \<Rightarrow> pystr list" where
  "tokens_from w [] = (if w = [] then [] else [w])"
| "tokens_from w (c # cs) =
     (if py_isspace c then (if w = [] then tokens_from [] cs else w # tokens_from [] cs)
      else tokens_from (w @ [c]) cs)"

text \<open>A token in double quotes (34), every double quote inside it doubled.\<close>

definition quote_token :: "pystr \<Rightarrow> pystr" where
  "quote_token w = 34 # concat (map (\<lambda>c. if c = 34 then [34, 34] else [c]) w) @ [34]"

text \<open>
  The quoted tokens joined with single spaces (32); no token, the empty expression.
\<close>

definition match_expression_spec :: "pystr \<Rightarrow> pystr" where
  "match_expression_spec key =
     (case tokens_from [] key of
        [] \<Rightarrow> []
      | t # ts \<Rightarrow> quote_token t @ concat (map (\<lambda>u. 32 # quote_token u) ts))"


section \<open>Sample data\<close>

text \<open>The title \<open>Pok\<close>, e with acute accent (233), \<open>mon Red & Blue\<close>.\<close>

definition pokemon_title :: pystr where
  "pokemon_title = str ''Pok'' @ [233] @ str ''mon Red & Blue''"

text \<open>
  A full-text engine for the samples: every token of the expression occurs in the
  indexed text.
\<close>

definition token_match :: "pystr \<Rightarrow> pystr \<Rightarrow> bool" where
  "token_match text expr =
     list_all (\<lambda>w. sublist w text) (py_split (filter (\<lambda>c. c \<noteq> 34) expr))"

definition cursor_on :: "database \<Rightarrow> cursor" where
  "cursor_on db = \<lparr>tables = db, fts_match = token_match, exec_error = None\<rparr>"

definition empty_db :: database where
  "empty_db =
     \<lparr>entries = [], entries_fts = [], regions_entries = [], links = [],
      platforms_table = [], regions_table = []\<rparr>"

definition super_mario_kart :: entry_row where
  "super_mario_kart =
     \<lparr>e_slug = str ''super-mario-kart'', e_rom_id = None, e_title = str ''Super Mario Kart'',
      e_platform = str ''snes'', e_boxart_url = None\<rparr>"

definition mario_kart :: entry_row where
  "mario_kart =
     \<lparr>e_slug = str ''mario-kart-64'', e_rom_id = Some (str ''NKTE''),
      e_title = str ''Mario Kart 64'', e_platform = str ''n64'', e_boxart_url = None\<rparr>"

definition tetris :: entry_row where
  "tetris =
     \<lparr>e_slug = str ''tetris'', e_rom_id = None, e_title = str ''Tetris'',
      e_platform = str ''gb'', e_boxart_url = None\<rparr>"

text \<open>
  Three entries; \<open>tetris\<close> has no region association; the index keys are the titles'
  \<open>create_db_search_key\<close>.
\<close>

definition kart_db :: database where
  "kart_db =
     \<lparr>entries = [(1, super_mario_kart), (2, mario_kart), (3, tetris)],
      entries_fts = [(1, str ''supermariokart''), (2, str ''mariokart64''), (3, str ''tetris'')],
      regions_entries =
        [(str ''super-mario-kart'', str ''JP''), (str ''mario-kart-64'', str ''US''),
         (str ''mario-kart-64'', str ''EU'')],
      links = [],
      platforms_table = [(str ''snes'', str ''Nintendo'', str ''Super Nintendo'')],
      regions_table = [(str ''US'', str ''USA'')]\<rparr>"

section \<open>Properties of the normalisation\<close>

lemma set_dropWhile_subset: "set (dropWhile P xs) \<subseteq> set xs"
  by (auto dest: set_dropWhileD)

lemma dropWhile_none: "\<forall>x \<in> set xs. \<not> P x \<Longrightarrow> dropWhile P xs = xs"
  by (cases xs) simp_all

lemma py_strip_subset: "set (py_strip s) \<subseteq> set s"
proof -
  have "set (py_strip s) \<subseteq> set (dropWhile py_isspace s)"
    using set_dropWhile_subset [of py_isspace "rev (dropWhile py_isspace s)"]
    by (simp add: py_strip_def)
  also have "\<dots> \<subseteq> set s"
    by (rule set_dropWhile_subset)
  finally show ?thesis .
qed

lemma py_strip_id: "\<forall>c \<in> set s. \<not> py_isspace c \<Longrightarrow> py_strip s = s"
  by (simp add: py_strip_def dropWhile_none)

lemma py_replace_id: "old \<notin> set s \<Longrightarrow> py_replace old new s = s"
  by (induction s) (simp_all add: py_replace_def)

lemma squeeze_id: "c \<notin> set s \<Longrightarrow> squeeze c s = s"
  by (induction c s rule: squeeze.induct) simp_all

lemma unidecode_id: "\<forall>c \<in> set s. c < 128 \<Longrightarrow> unidecode tbl s = s"
  by (induction s) (simp_all add: unidecode_def)

lemma unidecode_ascii: "c \<in> set (unidecode tbl s) \<Longrightarrow> c < 128"
proof -
  have w: "unat (w :: 7 word) < 128" for w
    using unsigned_less [of w, where ?'a = nat] by simp
  assume "c \<in> set (unidecode tbl s)"
  then show ?thesis
    by (auto simp: unidecode_def w split: if_splits)
qed

lemma py_lower_id: "\<forall>c \<in> set s. is_key_char c \<Longrightarrow> py_lower s = s"
  by (induction s) (auto simp: py_lower_def is_key_char_def)

lemma key_char_facts:
  assumes "is_key_char c"
  shows "\<not> py_isspace c" and "c < 128" and "c \<noteq> 32"
    and "c \<notin> fst ` set substitutions"
  using assms by (auto simp: is_key_char_def py_isspace_def substitutions_def)

lemma replace_invalid_chars_id:
  assumes "\<forall>c \<in> set s. is_key_char c"
  shows "replace_invalid_chars s = s"
proof -
  have "fold (\<lambda>(value1, value2) t. py_replace value1 (str '' '' @ value2 @ str '' '') t) subs s = s"
    if "\<forall>c \<in> set s. c \<notin> fst ` set subs" for subs
    using that
  proof (induction subs)
    case Nil
    show ?case by simp
  next
    case (Cons p subs)
    obtain a b where p: "p = (a, b)" by (cases p)
    from Cons.prems have "a \<notin> set s" by (auto simp: p)
    then show ?case using Cons by (simp add: p py_replace_id)
  qed
  then show ?thesis
    using assms key_char_facts(4) by (simp add: replace_invalid_chars_def)
qed

lemma create_db_search_key_chars:
  "\<forall>c \<in> set (create_db_search_key tbl x). is_key_char c"
proof
  fix c assume "c \<in> set (create_db_search_key tbl x)"
  then have "c \<in> set (filter is_key_char (py_lower (get_valid_search_key tbl x)))"
    using py_strip_subset unfolding create_db_search_key_def by blast
  then show "is_key_char c" by simp
qed

lemma create_db_search_key_fixed:
  assumes k: "\<forall>c \<in> set s. is_key_char c"
  shows "create_db_search_key tbl s = s"
proof -
  from k have nospace: "\<forall>c \<in> set s. \<not> py_isspace c" and ascii: "\<forall>c \<in> set s. c < 128"
    and no32: "32 \<notin> set s"
    using key_char_facts by blast+
  have "get_valid_search_key tbl s = s"
    by (simp add: get_valid_search_key_def normalize_repeated_chars_def
        replace_invalid_chars_id [OF k] unidecode_id [OF ascii] squeeze_id [OF no32]
        py_strip_id [OF nospace])
  moreover from k have "filter is_key_char s = s" by simp
  ultimately show ?thesis
    by (simp add: create_db_search_key_def py_lower_id [OF k] py_strip_id [OF nospace])
qed

section \<open>Properties of the match expression\<close>

lemma py_split_Nil: "py_split [] = []"
  by (subst py_split.simps) simp

lemma py_split_space: "py_isspace c \<Longrightarrow> py_split (c # cs) = py_split cs"
  by (subst py_split.simps, subst (2) py_split.simps) simp

lemma py_split_char:
  "\<not> py_isspace c \<Longrightarrow>
   py_split (c # cs) =
     (c # takeWhile (\<lambda>c. \<not> py_isspace c) cs) # py_split (dropWhile (\<lambda>c. \<not> py_isspace c) cs)"
  by (subst py_split.simps) simp

lemma tokens_from_split:
  "tokens_from w s =
     (if w = [] then py_split s
      else (w @ takeWhile (\<lambda>c. \<not> py_isspace c) s) # py_split (dropWhile (\<lambda>c. \<not> py_isspace c) s))"
proof (induction s arbitrary: w)
  case Nil
  show ?case by (simp add: py_split_Nil)
next
  case (Cons c cs)
  show ?case
  proof (cases "py_isspace c")
    case True
    then show ?thesis by (simp add: Cons.IH py_split_space)
  next
    case False
    then show ?thesis by (simp add: Cons.IH py_split_char)
  qed
qed

lemma py_split_tokens: "py_split s = tokens_from [] s"
  by (simp add: tokens_from_split)

lemma py_join_quoted:
  "py_join [32] (map f (t # ts)) = f t @ concat (map (\<lambda>u. 32 # f u) ts)"
  by (induction ts arbitrary: t) simp_all

lemma prepare_search_key_quote:
  "prepare_search_key k = py_join [32] (map quote_token (py_split k))"
proof -
  have "(\<lambda>word. [34] @ word @ [34]) \<circ> py_replace 34 [34, 34] = quote_token"
    by (rule ext) (simp add: quote_token_def py_replace_def)
  then show ?thesis
    by (simp add: prepare_search_key_def Let_def)
qed

lemma prepare_search_key_spec: "prepare_search_key k = match_expression_spec k"
proof (cases "tokens_from [] k")
  case Nil
  then show ?thesis
    by (simp add: prepare_search_key_quote match_expression_spec_def py_split_tokens)
next
  case (Cons t ts)
  then show ?thesis
    using py_join_quoted [of quote_token t ts]
    by (simp add: prepare_search_key_quote match_expression_spec_def py_split_tokens)
qed

section \<open>The claims about the text functions\<close>

text \<open>
  C8. \<open>toIndexKey\<close> (\<open>create_db_search_key\<close>) is idempotent: applied to one of its own
  results it returns that result, for every text and every transliteration table.
\<close>

theorem create_db_search_key_idempotent:
  "create_db_search_key tbl (create_db_search_key tbl x) = create_db_search_key tbl x"
  using create_db_search_key_chars by (rule create_db_search_key_fixed)

text \<open>
  C4 (as amended). With \<open>unidecode\<close> turning e with acute accent into \<open>e\<close>, the index key
  of the title \<open>Pok\<close>\<open>e\<close>\<open>mon Red & Blue\<close> is \<open>pokemonredandblue\<close>: the accent is
  stripped, the ampersand becomes \<open>and\<close> between spaces, the text is lowercased and
  everything but letters and digits is removed. The title has one ampersand, so the
  key has one \<open>and\<close>.
\<close>

theorem create_db_search_key_pokemon:
  "tbl 233 = [101] \<Longrightarrow> create_db_search_key tbl pokemon_title = str ''pokemonredandblue''"
  by (simp add: create_db_search_key_def get_valid_search_key_def normalize_repeated_chars_def
      replace_invalid_chars_def substitutions_def py_replace_def unidecode_def py_strip_def
      py_lower_def py_isspace_def is_key_char_def pokemon_title_def str_def)

theorem create_db_search_key_pokemon_witness:
  "latin_fragment 233 = [101]
   \<and> create_db_search_key latin_fragment pokemon_title = str ''pokemonredandblue''"
proof -
  have h: "latin_fragment 233 = [101]" by (simp add: latin_fragment_def)
  from create_db_search_key_pokemon [of latin_fragment] h show ?thesis by simp
qed

text \<open>
  C4 as stated fails: the key of that title is not \<open>pokemonandredandblue\<close>.
\<close>

theorem create_db_search_key_pokemon_counterexample:
  "create_db_search_key latin_fragment pokemon_title \<noteq> str ''pokemonandredandblue''"
  by (simp add: create_db_search_key_def get_valid_search_key_def normalize_repeated_chars_def
      replace_invalid_chars_def substitutions_def py_replace_def unidecode_def py_strip_def
      py_lower_def py_isspace_def is_key_char_def pokemon_title_def str_def latin_fragment_def)


text \<open>
  C3 (as amended). When a search key is supplied, the first \<open>WHERE\<close> clause of the
  query is the text predicate, and its match expression is \<open>prepare_search_key\<close> of
  the key as it was passed (\<open>get_valid_search_key\<close> is not applied to it): the key split
  on white space, every double quote of a token doubled, each token put in double
  quotes, the quoted tokens joined with single spaces, and the empty expression when
  there is no token.
\<close>

theorem search_match_expression:
  "k \<noteq> [] \<Longrightarrow>
   where_clauses (base_query (Some k) ps rs rid)
     = FtsMatch (prepare_search_key k) # where_clauses (base_query None ps rs rid)
   \<and> prepare_search_key k = match_expression_spec k"
  by (simp add: base_query_def prepare_search_key_spec)

theorem search_match_expression_witness:
  "str ''a&b'' \<noteq> []
   \<and> where_clauses (base_query (Some (str ''a&b'')) [] [] None)
       = [FtsMatch ([34] @ str ''a&b'' @ [34])]"
proof -
  have ne: "str ''a&b'' \<noteq> []" by (simp add: str_def)
  have ev: "match_expression_spec (str ''a&b'') = [34] @ str ''a&b'' @ [34]"
    by (simp add: match_expression_spec_def quote_token_def py_isspace_def str_def)
  have rest: "where_clauses (base_query None [] [] None) = []"
    by (simp add: base_query_def)
  from search_match_expression [of "str ''a&b''" "[]" "[]" None] ne ev rest
  show ?thesis by simp
qed

text \<open>
  C3 as stated fails: for the key \<open>a&b\<close> the match expression of the query is the one
  token \<open>a&b\<close> in quotes, not the expression of the normalised key \<open>a and b\<close>.
\<close>

theorem search_match_expression_counterexample:
  "where_clauses (base_query (Some (str ''a&b'')) [] [] None)
     \<noteq> [FtsMatch (prepare_search_key (get_valid_search_key latin_fragment (str ''a&b'')))]"
proof -
  have l: "where_clauses (base_query (Some (str ''a&b'')) [] [] None)
             = [FtsMatch ([34] @ str ''a&b'' @ [34])]"
    by (simp add: base_query_def prepare_search_key_spec match_expression_spec_def
        quote_token_def py_isspace_def str_def)
  have r: "prepare_search_key (get_valid_search_key latin_fragment (str ''a&b''))
             = [34] @ str ''a'' @ [34, 32, 34] @ str ''and'' @ [34, 32, 34] @ str ''b'' @ [34]"
    by (simp add: prepare_search_key_spec match_expression_spec_def quote_token_def
        py_isspace_def str_def get_valid_search_key_def normalize_repeated_chars_def
        replace_invalid_chars_def substitutions_def py_replace_def unidecode_def py_strip_def)
  show ?thesis
    unfolding l r by (simp add: str_def)
qed

section \<open>The sample catalogue evaluated\<close>

lemma sample_entries_distinct:
  "super_mario_kart \<noteq> mario_kart" "super_mario_kart \<noteq> tetris" "mario_kart \<noteq> tetris"
  by (simp_all add: super_mario_kart_def mario_kart_def tetris_def str_def)

lemma kart_db_unfiltered:
  "select_distinct (cursor_on kart_db) (base_query None [] [] None)
     = [(super_mario_kart, None, None), (mario_kart, None, None), (tetris, None, None)]"
  using sample_entries_distinct
  by (simp add: select_distinct_def join_rows_def fts_side_def region_side_def base_query_def
      truthy_def cursor_on_def kart_db_def)

lemma kart_db_hydration:
  "select_regions (e_slug super_mario_kart) (cursor_on kart_db) = [str ''JP'']"
  "select_regions (e_slug mario_kart) (cursor_on kart_db) = [str ''US'', str ''EU'']"
  "select_links s (cursor_on kart_db) = []"
  by (simp_all add: select_regions_def select_links_def cursor_on_def kart_db_def
      super_mario_kart_def mario_kart_def str_def)






section \<open>Properties of the operations\<close>

lemma execute_ok: "exec_error cur = None \<Longrightarrow> execute cur q = Inr (q cur)"
  by (simp add: execute_def)

lemma execute_fail: "exec_error cur = Some x \<Longrightarrow> execute cur q = Inl x"
  by (simp add: execute_def)

lemma hydrate_ok:
  "exec_error cur = None \<Longrightarrow>
   hydrate cur e =
     Inr \<lparr>entry = e, entry_regions = select_regions (e_slug e) cur,
          entry_links = select_links (e_slug e) cur\<rparr>"
  by (simp add: hydrate_def execute_ok)

lemma hydrate_fail: "exec_error cur = Some x \<Longrightarrow> hydrate cur e = Inl x"
  by (simp add: hydrate_def execute_fail)

lemma hydrate_all_ok:
  "exec_error cur = None \<Longrightarrow> \<exists>hs. hydrate_all cur es = Inr hs \<and> map entry hs = es"
  by (induction es) (auto simp: hydrate_ok)

lemma handle_exception_returns: "\<exists>r. handle_exception v = Inr r"
  by (cases v) (auto simp: handle_exception_def split: exn.splits)

lemma handle_exception_message:
  "handle_exception (Inl x) = Inr r \<Longrightarrow> \<exists>msg. info r ''error'' = Some msg \<and> msg \<noteq> [] \<and> data r = Empty"
  by (cases x) (auto simp: handle_exception_def build_response_def)

lemma with_db_open: "with_db (Inr cur) func = func cur"
  by (simp add: with_db_def)

lemma with_db_fails: "with_db (Inl x) func = Inl x"
  by (simp add: with_db_def)


lemma random_row_Some:
  "entries (tables cur) \<noteq> [] \<Longrightarrow> \<exists>e \<in> snd ` set (entries (tables cur)). random_row pick cur = Some e"
proof -
  assume ne: "entries (tables cur) \<noteq> []"
  let ?rows = "map snd (entries (tables cur))"
  from ne have "pick mod length ?rows < length ?rows" by simp
  then have "?rows ! (pick mod length ?rows) \<in> set ?rows" by (rule nth_mem)
  with ne show ?thesis by (simp add: random_row_def)
qed

lemma entry_response_no_error:
  "entry_response cur e = Inr r \<Longrightarrow> info r = Map.empty"
  by (auto simp: entry_response_def build_response_def split: sum.splits)

lemma get_entry_body_random_no_error:
  "get_entry_body pick cur slug True = Inr r \<Longrightarrow> info r = Map.empty"
  by (auto simp: get_entry_body_def build_response_def entry_response_no_error
      split: sum.splits option.splits)

lemma handle_exception_generic:
  "handle_exception (Inl x) = Inr r \<Longrightarrow>
   info r ''error'' \<noteq> Some ''Slug is required'' \<and> info r ''error'' \<noteq> Some ''Entry not found''"
  by (cases x) (auto simp: handle_exception_def build_response_def)

lemma length_sql_limit: "0 \<le> n \<Longrightarrow> int (length (sql_limit n off xs)) \<le> n"
  by (simp add: sql_limit_def Let_def)

lemma get_search_body_ok:
  fixes m p :: int and k ps rs rid cur
  defines "M \<equiv> max 1 (min m 100)" and "P \<equiv> max 1 p"
  defines "q \<equiv> base_query k (case ps of None \<Rightarrow> [] | Some x \<Rightarrow> x) (case rs of None \<Rightarrow> [] | Some x \<Rightarrow> x) rid"
  defines "T \<equiv> run_count q cur"
  defines "TP \<equiv> (T + M - 1) div M"
  assumes ok: "exec_error cur = None"
  shows "\<exists>hs. get_search_body tbl cur k ps rs rid m p
             = Inr \<lparr>info = Map.empty,
                    data = Search \<lparr>results = hs, current_results = int (length hs),
                                    total_results = T, current_page = min P TP,
                                    total_pages = TP\<rparr>\<rparr>
           \<and> map entry hs
               = map fst (run_paged (final_query tbl k q M ((min P TP - 1) * M)) cur)"
proof -
  have M: "0 < M" by (simp add: M_def)
  obtain hs where hs: "hydrate_all cur (map fst (run_paged (final_query tbl k q M ((min P TP - 1) * M)) cur)) = Inr hs"
    "map entry hs = map fst (run_paged (final_query tbl k q M ((min P TP - 1) * M)) cur)"
    using hydrate_all_ok [OF ok] by blast
  have "get_search_body tbl cur k ps rs rid m p
             = Inr \<lparr>info = Map.empty,
                    data = Search \<lparr>results = hs, current_results = int (length hs),
                                    total_results = T, current_page = min P TP,
                                    total_pages = TP\<rparr>\<rparr>"
    using M hs(1) unfolding get_search_body_def Let_def
    by (simp add: execute_ok [OF ok] build_response_def M_def [symmetric] P_def [symmetric]
        q_def [symmetric] T_def [symmetric] TP_def [symmetric])
  with hs(2) show ?thesis by blast
qed

lemma get_search_body_fail:
  "exec_error cur = Some x \<Longrightarrow> get_search_body tbl cur k ps rs rid m p = Inl x"
  by (simp add: get_search_body_def Let_def execute_fail)

lemma pages_ceiling:
  fixes T M :: int
  assumes "0 < M" and "0 < T"
  shows "1 \<le> (T + M - 1) div M" and "T \<le> ((T + M - 1) div M) * M"
    and "((T + M - 1) div M - 1) * M < T"
proof -
  let ?a = "T + M - 1"
  have eq: "?a = (?a div M) * M + ?a mod M" by simp
  have lo: "0 \<le> ?a mod M" and hi: "?a mod M < M"
    using assms(1) by simp_all
  from assms have "M \<le> ?a" by simp
  then show "1 \<le> ?a div M"
    using assms(1) pos_imp_zdiv_pos_iff [of M ?a] by simp
  from eq hi show "T \<le> (?a div M) * M" by linarith
  from eq lo have "(?a div M) * M \<le> ?a" by linarith
  then show "(?a div M - 1) * M < T" by (simp add: algebra_simps)
qed

lemma clamp_idem:
  "max 1 (min (max 1 (min m 100)) 100) = max (1::int) (min m 100)" "max 1 (max 1 p) = max (1::int) p"
  by simp_all

lemma search_data_eq:
  "data r = Search \<lparr>results = hs, current_results = c, total_results = t, current_page = pg, total_pages = tp\<rparr>
   \<Longrightarrow> data r = Search d \<Longrightarrow> current_results d = c"
  by auto

lemma length_run_paged:
  "0 \<le> n \<Longrightarrow> int (length (run_paged (final_query tbl k q n off) cur)) \<le> n"
  unfolding run_paged_def final_query_def by (simp add: length_sql_limit)

lemma search_current_results_le:
  assumes hr: "get_search_body tbl cur k ps rs rid m p = Inr r" and hd: "data r = Search d"
  shows "current_results d \<le> max 1 (min m 100)"
proof (cases "exec_error cur")
  case (Some x)
  with hr show ?thesis by (simp add: get_search_body_fail)
next
  case None
  let ?q = "base_query k (case ps of None \<Rightarrow> [] | Some x \<Rightarrow> x)
              (case rs of None \<Rightarrow> [] | Some x \<Rightarrow> x) rid"
  let ?TP = "(run_count ?q cur + max 1 (min m 100) - 1) div max 1 (min m 100)"
  let ?rows = "run_paged (final_query tbl k ?q (max 1 (min m 100))
                 ((min (max 1 p) ?TP - 1) * max 1 (min m 100))) cur"
  from get_search_body_ok [OF None, of tbl k ps rs rid m p]
  obtain hs where
    eq: "get_search_body tbl cur k ps rs rid m p
           = Inr \<lparr>info = Map.empty,
                  data = Search \<lparr>results = hs, current_results = int (length hs),
                                  total_results = run_count ?q cur,
                                  current_page = min (max 1 p) ?TP,
                                  total_pages = ?TP\<rparr>\<rparr>"
    and hs: "map entry hs = map fst ?rows"
    by blast
  from hr have "data r = Search \<lparr>results = hs, current_results = int (length hs),
                                  total_results = run_count ?q cur,
                                  current_page = min (max 1 p) ?TP,
                                  total_pages = ?TP\<rparr>"
    unfolding eq by auto
  then have "current_results d = int (length hs)"
    using hd by (rule search_data_eq)
  also from hs have "length hs = length ?rows" by (metis length_map)
  finally have c: "current_results d = int (length ?rows)" .
  have le: "int (length ?rows) \<le> max 1 (min m 100)"
    by (rule length_run_paged) simp
  show ?thesis unfolding c by (rule le)
qed

text \<open>
  The pagination of a search that succeeds: the ceiling formula, the page within
  \<open>1 .. total_pages\<close> when there is a result, and both at 0 when there is none.
\<close>

lemma search_pages:
  assumes ok: "exec_error cur = None"
    and hr: "get_search_body tbl cur k ps rs rid m p = Inr r" and hd: "data r = Search d"
  shows "total_pages d = (total_results d + max 1 (min m 100) - 1) div max 1 (min m 100)"
    and "current_page d = min (max 1 p) (total_pages d)"
    and "0 \<le> total_results d"
proof -
  let ?q = "base_query k (case ps of None \<Rightarrow> [] | Some x \<Rightarrow> x)
              (case rs of None \<Rightarrow> [] | Some x \<Rightarrow> x) rid"
  let ?TP = "(run_count ?q cur + max 1 (min m 100) - 1) div max 1 (min m 100)"
  from get_search_body_ok [OF ok, of tbl k ps rs rid m p]
  obtain hs where
    eq: "get_search_body tbl cur k ps rs rid m p
           = Inr \<lparr>info = Map.empty,
                  data = Search \<lparr>results = hs, current_results = int (length hs),
                                  total_results = run_count ?q cur,
                                  current_page = min (max 1 p) ?TP,
                                  total_pages = ?TP\<rparr>\<rparr>"
    by blast
  from hr have "data r = Search \<lparr>results = hs, current_results = int (length hs),
                                  total_results = run_count ?q cur,
                                  current_page = min (max 1 p) ?TP,
                                  total_pages = ?TP\<rparr>"
    unfolding eq by auto
  with hd have d: "d = \<lparr>results = hs, current_results = int (length hs),
                                  total_results = run_count ?q cur,
                                  current_page = min (max 1 p) ?TP,
                                  total_pages = ?TP\<rparr>"
    by simp
  show "total_pages d = (total_results d + max 1 (min m 100) - 1) div max 1 (min m 100)"
    unfolding d by simp
  show "current_page d = min (max 1 p) (total_pages d)"
    unfolding d by simp
  show "0 \<le> total_results d"
    unfolding d by (simp add: run_count_def)
qed

lemma search_pages_with_results:
  assumes ok: "exec_error cur = None"
    and hr: "get_search_body tbl cur k ps rs rid m p = Inr r" and hd: "data r = Search d"
    and pos: "0 < total_results d"
  shows "1 \<le> current_page d \<and> current_page d \<le> total_pages d
         \<and> total_results d \<le> total_pages d * max 1 (min m 100)
         \<and> (total_pages d - 1) * max 1 (min m 100) < total_results d"
proof -
  have M: "0 < max 1 (min m 100)" by simp
  note tp = search_pages(1) [OF ok hr hd] and cp = search_pages(2) [OF ok hr hd]
  from pages_ceiling [OF M pos]
  have "1 \<le> total_pages d" "total_results d \<le> total_pages d * max 1 (min m 100)"
    "(total_pages d - 1) * max 1 (min m 100) < total_results d"
    unfolding tp [symmetric] by blast+
  moreover from this(1) have "1 \<le> current_page d \<and> current_page d \<le> total_pages d"
    unfolding cp by linarith
  ultimately show ?thesis by blast
qed

lemma search_pages_without_results:
  assumes ok: "exec_error cur = None"
    and hr: "get_search_body tbl cur k ps rs rid m p = Inr r" and hd: "data r = Search d"
    and zero: "total_results d = 0"
  shows "total_pages d = 0 \<and> current_page d = 0"
proof -
  have "(0 + max 1 (min m 100) - 1) div max 1 (min m 100) = 0"
    by (rule div_pos_pos_trivial) simp_all
  with search_pages(1) [OF ok hr hd] zero have tp: "total_pages d = 0" by simp
  with search_pages(2) [OF ok hr hd] have "current_page d = 0" by simp
  with tp show ?thesis ..
qed

section \<open>The claims about the operations\<close>

text \<open>
  C2. The claim is that no fault passes the boundary of an operation, a failure to open
  the connection included. In the code \<open>with_db\<close> wraps the function that
  \<open>handle_exception\<close> built, so \<open>sqlite3.connect\<close> runs outside every \<open>except\<close>
  clause: when it raises \<open>OperationalError\<close> (database file missing or unreadable),
  each of the five operations raises it to the caller instead of returning the
  envelope.
\<close>

theorem connect_failure_escapes:
  "get_search tbl (Inl OperationalError) search_key ps rs ri m p = Inl OperationalError
   \<and> get_entry pick (Inl OperationalError) slug rand = Inl OperationalError
   \<and> get_platforms (Inl OperationalError) = Inl OperationalError
   \<and> get_regions (Inl OperationalError) = Inl OperationalError
   \<and> get_info (Inl OperationalError) = Inl OperationalError"
  by (simp add: get_search_def get_entry_def get_platforms_def get_regions_def get_info_def
      with_db_fails)

text \<open>
  What does hold: on an open connection every operation returns the envelope, whatever
  the function under \<open>handle_exception\<close> raises.
\<close>

lemma operations_return_on_open_connection:
  "\<exists>r. get_search tbl (Inr cur) search_key ps rs ri m p = Inr r"
  "\<exists>r. get_entry pick (Inr cur) slug rand = Inr r"
  "\<exists>r. get_platforms (Inr cur) = Inr r"
  "\<exists>r. get_regions (Inr cur) = Inr r"
  "\<exists>r. get_info (Inr cur) = Inr r"
  by (simp_all add: get_search_def get_entry_def get_platforms_def get_regions_def get_info_def
      with_db_open handle_exception_returns)



text \<open>
  C10. In \<open>get_entry\<close>, \<open>random\<close> takes precedence over the slug: with \<open>random\<close> set the
  result is the same whatever slug is passed, it never carries the error
  \<open>Slug is required\<close> or \<open>Entry not found\<close>, and on a working connection to a non-empty
  catalogue it is one of the catalogue's entries with its regions and links.
\<close>

theorem get_entry_random_precedence:
  "get_entry pick con slug True = get_entry pick con None True
   \<and> (get_entry pick con slug True = Inr r \<longrightarrow>
        info r ''error'' \<noteq> Some ''Slug is required''
        \<and> info r ''error'' \<noteq> Some ''Entry not found'')
   \<and> (exec_error cur = None \<and> entries (tables cur) \<noteq> [] \<longrightarrow>
        (\<exists>e \<in> snd ` set (entries (tables cur)).
           get_entry pick (Inr cur) slug True
             = Inr \<lparr>info = Map.empty,
                    data = Entry \<lparr>entry = e, entry_regions = select_regions (e_slug e) cur,
                                  entry_links = select_links (e_slug e) cur\<rparr>\<rparr>))"
proof -
  have first: "get_entry pick con slug True = get_entry pick con None True"
    by (simp add: get_entry_def get_entry_body_def)
  have second: "info r ''error'' \<noteq> Some ''Slug is required''
        \<and> info r ''error'' \<noteq> Some ''Entry not found''"
    if a: "get_entry pick con slug True = Inr r"
  proof -
    from a obtain cur' where con: "con = Inr cur'"
      by (cases con) (simp_all add: get_entry_def with_db_def)
    from a con have h: "handle_exception (get_entry_body pick cur' slug True) = Inr r"
      by (simp add: get_entry_def with_db_open)
    show ?thesis
    proof (cases "get_entry_body pick cur' slug True")
      case (Inl x)
      with h show ?thesis using handle_exception_generic by simp
    next
      case (Inr v)
      with h have "v = r" by (simp add: handle_exception_def)
      with Inr have "info r = Map.empty" using get_entry_body_random_no_error by blast
      then show ?thesis by simp
    qed
  qed
  have third: "\<exists>e \<in> snd ` set (entries (tables cur)).
           get_entry pick (Inr cur) slug True
             = Inr \<lparr>info = Map.empty,
                    data = Entry \<lparr>entry = e, entry_regions = select_regions (e_slug e) cur,
                                  entry_links = select_links (e_slug e) cur\<rparr>\<rparr>"
    if a: "exec_error cur = None \<and> entries (tables cur) \<noteq> []"
  proof -
    from a obtain e where e: "e \<in> snd ` set (entries (tables cur))" "random_row pick cur = Some e"
      using random_row_Some by blast
    with a have "get_entry pick (Inr cur) slug True
             = Inr \<lparr>info = Map.empty,
                    data = Entry \<lparr>entry = e, entry_regions = select_regions (e_slug e) cur,
                                  entry_links = select_links (e_slug e) cur\<rparr>\<rparr>"
      by (simp add: get_entry_def with_db_open get_entry_body_def execute_ok entry_response_def
          hydrate_ok handle_exception_def build_response_def)
    with e(1) show ?thesis by blast
  qed
  from first second third show ?thesis by blast
qed

theorem get_entry_random_precedence_witness:
  "get_entry 4 (Inr (cursor_on kart_db)) (Some (str ''tetris'')) True
     = Inr \<lparr>info = Map.empty,
            data = Entry \<lparr>entry = mario_kart, entry_regions = [str ''US'', str ''EU''],
                          entry_links = []\<rparr>\<rparr>
   \<and> exec_error (cursor_on kart_db) = None \<and> entries (tables (cursor_on kart_db)) \<noteq> []
   \<and> get_entry 4 (Inr (cursor_on kart_db)) (Some (str ''tetris'')) True
       = get_entry 4 (Inr (cursor_on kart_db)) None True
   \<and> info \<lparr>info = Map.empty,
            data = Entry \<lparr>entry = mario_kart, entry_regions = [str ''US'', str ''EU''],
                          entry_links = []\<rparr>\<rparr> ''error'' \<noteq> Some ''Slug is required''
   \<and> info \<lparr>info = Map.empty,
            data = Entry \<lparr>entry = mario_kart, entry_regions = [str ''US'', str ''EU''],
                          entry_links = []\<rparr>\<rparr> ''error'' \<noteq> Some ''Entry not found''"
proof -
  have ev: "get_entry 4 (Inr (cursor_on kart_db)) (Some (str ''tetris'')) True
     = Inr \<lparr>info = Map.empty,
            data = Entry \<lparr>entry = mario_kart, entry_regions = [str ''US'', str ''EU''],
                          entry_links = []\<rparr>\<rparr>"
    by (simp add: get_entry_def with_db_open get_entry_body_def execute_ok entry_response_def
        hydrate_ok handle_exception_def build_response_def cursor_on_def kart_db_def
        random_row_def select_regions_def select_links_def mario_kart_def str_def)
  have h: "exec_error (cursor_on kart_db) = None \<and> entries (tables (cursor_on kart_db)) \<noteq> []"
    by (simp add: cursor_on_def kart_db_def)
  from get_entry_random_precedence [where pick = 4 and con = "Inr (cursor_on kart_db)"
      and slug = "Some (str ''tetris'')" and cur = "cursor_on kart_db"
      and r = "\<lparr>info = Map.empty,
            data = Entry \<lparr>entry = mario_kart, entry_regions = [str ''US'', str ''EU''],
                          entry_links = []\<rparr>\<rparr>"] ev h
  show ?thesis by blast
qed

text \<open>
  C1. The claim is that \<open>total_pages\<close> is at least 1 even without results and that
  \<open>1 \<le> current_page \<le> total_pages\<close> for every search. In the code the \<open>else 1\<close> branch
  guards \<open>max_results > 0\<close>, which always holds after the clamp, so a search without
  results computes \<open>(0 + max_results - 1) // max_results = 0\<close> pages, and
  \<open>min(page, total_pages)\<close> then sets the page, which line 118 had made at least 1, to 0
  (and the offset to \<open>- max_results\<close>); with at least one result the count of pages
  is the ceiling and the page is within bounds. On the empty catalogue, with
  \<open>max_results = 10\<close> and \<open>page = 1\<close>, the response is:
\<close>

theorem search_without_results_page_zero:
  "get_search latin_fragment (Inr (cursor_on empty_db)) None None None None 10 1
     = Inr \<lparr>info = Map.empty,
            data = Search \<lparr>results = [], current_results = 0, total_results = 0,
                            current_page = 0, total_pages = 0\<rparr>\<rparr>"
  by (simp add: get_search_def with_db_open get_search_body_def execute_ok base_query_def
      truthy_def run_count_def select_distinct_def join_rows_def final_query_def run_paged_def
      ordered_rows_def sql_limit_def handle_exception_def build_response_def cursor_on_def
      empty_db_def)

text \<open>
  C7. \<open>get_search\<close> uses \<open>max_results\<close> and \<open>page\<close> only through their clamped values
  \<open>max(1, min(max_results, 100))\<close>, which lies between 1 and 100, and \<open>max(1, page)\<close>,
  which is at least 1: a call with the raw values is the call with the clamped ones
  (\<open>0\<close> acts as \<open>1\<close>, \<open>500\<close> as \<open>100\<close>), and a page never holds more results than the
  clamped limit.
\<close>

theorem search_clamps_inputs:
  "get_search_body tbl cur k ps rs rid m p
     = get_search_body tbl cur k ps rs rid (max 1 (min m 100)) (max 1 p)
   \<and> 1 \<le> max 1 (min m 100) \<and> max 1 (min m 100) \<le> 100 \<and> 1 \<le> max 1 p
   \<and> get_search_body tbl cur k ps rs rid 0 p = get_search_body tbl cur k ps rs rid 1 p
   \<and> get_search_body tbl cur k ps rs rid 500 p = get_search_body tbl cur k ps rs rid 100 p
   \<and> (get_search_body tbl cur k ps rs rid m p = Inr r \<and> data r = Search d \<longrightarrow>
        current_results d \<le> max 1 (min m 100))"
proof -
  have a: "get_search_body tbl cur k ps rs rid m p
     = get_search_body tbl cur k ps rs rid (max 1 (min m 100)) (max 1 p)" for m p
    unfolding get_search_body_def clamp_idem ..
  from a [of 0 p] a [of 1 p]
  have c: "get_search_body tbl cur k ps rs rid 0 p = get_search_body tbl cur k ps rs rid 1 p"
    by simp
  from a [of 500 p] a [of 100 p]
  have d: "get_search_body tbl cur k ps rs rid 500 p = get_search_body tbl cur k ps rs rid 100 p"
    by simp
  have e: "1 \<le> max 1 (min m 100) \<and> max 1 (min m 100) \<le> 100 \<and> 1 \<le> max 1 p"
    by simp
  from a [of m p] c d e search_current_results_le [of tbl cur k ps rs rid m p r d]
  show ?thesis by blast
qed

theorem search_clamps_inputs_witness:
  "get_search_body latin_fragment (cursor_on kart_db) None None None None 2 1
     = Inr \<lparr>info = Map.empty,
            data = Search \<lparr>results =
                              [\<lparr>entry = super_mario_kart, entry_regions = [str ''JP''],
                                entry_links = []\<rparr>,
                               \<lparr>entry = mario_kart, entry_regions = [str ''US'', str ''EU''],
                                entry_links = []\<rparr>],
                            current_results = 2, total_results = 3, current_page = 1,
                            total_pages = 2\<rparr>\<rparr>
   \<and> data \<lparr>info = Map.empty,
            data = Search \<lparr>results =
                              [\<lparr>entry = super_mario_kart, entry_regions = [str ''JP''],
                                entry_links = []\<rparr>,
                               \<lparr>entry = mario_kart, entry_regions = [str ''US'', str ''EU''],
                                entry_links = []\<rparr>],
                            current_results = 2, total_results = 3, current_page = 1,
                            total_pages = 2\<rparr>\<rparr>
       = Search \<lparr>results =
                              [\<lparr>entry = super_mario_kart, entry_regions = [str ''JP''],
                                entry_links = []\<rparr>,
                               \<lparr>entry = mario_kart, entry_regions = [str ''US'', str ''EU''],
                                entry_links = []\<rparr>],
                            current_results = 2, total_results = 3, current_page = 1,
                            total_pages = 2\<rparr>
   \<and> (2::int) \<le> max 1 (min 2 100)
   \<and> get_search_body latin_fragment (cursor_on kart_db) None None None None 0 1
       = get_search_body latin_fragment (cursor_on kart_db) None None None None 1 1
   \<and> get_search_body latin_fragment (cursor_on kart_db) None None None None 500 1
       = get_search_body latin_fragment (cursor_on kart_db) None None None None 100 1"
proof -
  let ?d = "\<lparr>results =
                              [\<lparr>entry = super_mario_kart, entry_regions = [str ''JP''],
                                entry_links = []\<rparr>,
                               \<lparr>entry = mario_kart, entry_regions = [str ''US'', str ''EU''],
                                entry_links = []\<rparr>],
                            current_results = 2, total_results = 3, current_page = 1,
                            total_pages = 2\<rparr>"
  have ok: "exec_error (cursor_on kart_db) = None"
    by (simp add: cursor_on_def)
  have c: "run_count (base_query None [] [] None) (cursor_on kart_db) = 3"
    by (simp add: run_count_def kart_db_unfiltered)
  have p: "run_paged (final_query latin_fragment None (base_query None [] [] None) 2 0)
             (cursor_on kart_db)
           = [(super_mario_kart, None, None), (mario_kart, None, None)]"
    by (simp add: run_paged_def ordered_rows_def final_query_def sql_limit_def
        kart_db_unfiltered)
  have h: "hydrate_all (cursor_on kart_db) [super_mario_kart, mario_kart]
           = Inr [\<lparr>entry = super_mario_kart, entry_regions = [str ''JP''], entry_links = []\<rparr>,
                  \<lparr>entry = mario_kart, entry_regions = [str ''US'', str ''EU''],
                   entry_links = []\<rparr>]"
    by (simp add: hydrate_ok [OF ok] kart_db_hydration)
  have ev: "get_search_body latin_fragment (cursor_on kart_db) None None None None 2 1
     = Inr \<lparr>info = Map.empty, data = Search ?d\<rparr>"
    by (simp add: get_search_body_def execute_ok [OF ok] c p h build_response_def
        del: hydrate_all.simps)
  have sel: "data \<lparr>info = Map.empty, data = Search ?d\<rparr> = Search ?d"
    by simp
  have le: "(2::int) \<le> max 1 (min 2 100)"
    by simp
  from search_clamps_inputs [where tbl = latin_fragment and cur = "cursor_on kart_db"
      and k = None and ps = None and rs = None and rid = None and m = 2 and p = 1
      and r = "\<lparr>info = Map.empty, data = Search ?d\<rparr>" and d = ?d] ev sel le
  show ?thesis by blast
qed

section \<open>Properties of the queries\<close>

lemma first_occurrences_image:
  "f ` set (first_occurrences f seen xs) = f ` set xs - set seen"
  by (induction xs arbitrary: seen) auto


lemma inner_rows:
  "(e, k, r) \<in> set (concat (map (\<lambda>k. map (\<lambda>r. (e', k, r)) R) K)) \<longleftrightarrow>
     e = e' \<and> k \<in> set K \<and> r \<in> set R"
  by auto

lemma join_rows_iff:
  "(e, k, r) \<in> set (join_rows db q) \<longleftrightarrow>
     (\<exists>rid. (rid, e) \<in> set (entries db) \<and> k \<in> set (fts_side db q rid))
     \<and> r \<in> set (region_side db q e)"
proof -
  have "(e, k, r) \<in> set (join_rows db q) \<longleftrightarrow>
     (\<exists>p \<in> set (entries db). (e, k, r) \<in> set (concat (map (\<lambda>k. map (\<lambda>r. (snd p, k, r))
         (region_side db q (snd p))) (fts_side db q (fst p)))))"
    unfolding join_rows_def set_concat set_map by (simp add: case_prod_unfold)
  also have "\<dots> \<longleftrightarrow> (\<exists>p \<in> set (entries db). e = snd p \<and> k \<in> set (fts_side db q (fst p))
       \<and> r \<in> set (region_side db q (snd p)))"
    unfolding inner_rows ..
  also have "\<dots> \<longleftrightarrow> (\<exists>rid. (rid, e) \<in> set (entries db) \<and> k \<in> set (fts_side db q rid))
     \<and> r \<in> set (region_side db q e)"
    by force
  finally show ?thesis .
qed

lemma region_side_iff:
  "r \<in> set (region_side db q e) \<longleftrightarrow>
     (if left_join_regions q
      then (case r of None \<Rightarrow> \<forall>x. (e_slug e, x) \<notin> set (regions_entries db)
            | Some x \<Rightarrow> (e_slug e, x) \<in> set (regions_entries db))
      else r = None)"
  by (cases r) (auto simp: region_side_def Let_def filter_empty_conv)

lemma select_distinct_iff:
  "e \<in> fst ` set (select_distinct cur q) \<longleftrightarrow>
     (\<exists>k r. (e, k, r) \<in> set (join_rows (tables cur) q)
        \<and> list_all (\<lambda>p. holds (fts_match cur) p (e, k, r)) (where_clauses q))"
  by (force simp: select_distinct_def first_occurrences_image)

lemma where_region:
  "list_all (\<lambda>p. holds m p (e, k, r)) (where_clauses (base_query sk ps rs ri)) \<longleftrightarrow>
     list_all (\<lambda>p. holds m p (e, k, None)) (where_clauses (base_query sk ps [] ri))
     \<and> (rs = [] \<or> (case r of None \<Rightarrow> True | Some x \<Rightarrow> x \<in> set rs))"
  by (auto simp: base_query_def split: option.splits)

lemma fts_side_base:
  "fts_side db (base_query sk ps rs ri) n = fts_side db (base_query sk ps [] ri) n"
  by (simp add: fts_side_def base_query_def)

lemma matched_iff:
  "e \<in> fst ` set (select_distinct cur q) \<longleftrightarrow>
     (\<exists>n k r. (n, e) \<in> set (entries (tables cur)) \<and> k \<in> set (fts_side (tables cur) q n)
        \<and> r \<in> set (region_side (tables cur) q e)
        \<and> list_all (\<lambda>p. holds (fts_match cur) p (e, k, r)) (where_clauses q))"
  unfolding select_distinct_iff join_rows_iff by blast

lemma region_side_unfiltered: "region_side db (base_query sk ps [] ri) e = [None]"
  by (simp add: region_side_def base_query_def)

lemma region_filter_iff:
  assumes rs: "rs \<noteq> []"
  shows "e \<in> fst ` set (select_distinct cur (base_query sk ps rs ri)) \<longleftrightarrow>
     e \<in> fst ` set (select_distinct cur (base_query sk ps [] ri))
     \<and> ((\<exists>x \<in> set rs. (e_slug e, x) \<in> set (regions_entries (tables cur)))
        \<or> (\<forall>x. (e_slug e, x) \<notin> set (regions_entries (tables cur))))"
    (is "?L \<longleftrightarrow> ?U \<and> ?C")
proof
  have lj: "left_join_regions (base_query sk ps rs ri)"
    using rs by (simp add: base_query_def)
  assume ?L
  then obtain n k r where n: "(n, e) \<in> set (entries (tables cur))"
    and k: "k \<in> set (fts_side (tables cur) (base_query sk ps rs ri) n)"
    and r: "r \<in> set (region_side (tables cur) (base_query sk ps rs ri) e)"
    and w: "list_all (\<lambda>p. holds (fts_match cur) p (e, k, r)) (where_clauses (base_query sk ps rs ri))"
    unfolding matched_iff by blast
  from w rs have w0: "list_all (\<lambda>p. holds (fts_match cur) p (e, k, None)) (where_clauses (base_query sk ps [] ri))"
    and ok: "case r of None \<Rightarrow> True | Some x \<Rightarrow> x \<in> set rs"
    using where_region [of "fts_match cur" e k r sk ps rs ri] by simp_all
  from k have k0: "k \<in> set (fts_side (tables cur) (base_query sk ps [] ri) n)"
    by (simp add: fts_side_base [of _ sk ps rs ri])
  have "?U"
    unfolding matched_iff using n k0 w0 by (auto simp: region_side_unfiltered)
  moreover have "?C"
    using r ok lj unfolding region_side_iff by (cases r) auto
  ultimately show "?U \<and> ?C" ..
next
  have lj: "left_join_regions (base_query sk ps rs ri)"
    using rs by (simp add: base_query_def)
  assume uc: "?U \<and> ?C"
  then obtain n k r0 where n: "(n, e) \<in> set (entries (tables cur))"
    and k0: "k \<in> set (fts_side (tables cur) (base_query sk ps [] ri) n)"
    and w: "list_all (\<lambda>p. holds (fts_match cur) p (e, k, r0)) (where_clauses (base_query sk ps [] ri))"
    unfolding matched_iff by blast
  from w have w0: "list_all (\<lambda>p. holds (fts_match cur) p (e, k, None)) (where_clauses (base_query sk ps [] ri))"
    using where_region [of "fts_match cur" e k r0 sk ps "[]" ri] by simp
  from k0 have k: "k \<in> set (fts_side (tables cur) (base_query sk ps rs ri) n)"
    by (simp add: fts_side_base [of _ sk ps rs ri])
  from uc obtain r where r: "r \<in> set (region_side (tables cur) (base_query sk ps rs ri) e)"
    and ok: "case r of None \<Rightarrow> True | Some x \<Rightarrow> x \<in> set rs"
  proof (cases "\<forall>x. (e_slug e, x) \<notin> set (regions_entries (tables cur))")
    case True
    then have "None \<in> set (region_side (tables cur) (base_query sk ps rs ri) e)"
      unfolding region_side_iff using lj by simp
    then show ?thesis using that [of None] by simp
  next
    case False
    with uc obtain x where "x \<in> set rs" "(e_slug e, x) \<in> set (regions_entries (tables cur))"
      by blast
    then have "Some x \<in> set (region_side (tables cur) (base_query sk ps rs ri) e)"
      unfolding region_side_iff using lj by simp
    then show ?thesis using that [of "Some x"] \<open>x \<in> set rs\<close> by simp
  qed
  from w0 ok have "list_all (\<lambda>p. holds (fts_match cur) p (e, k, r)) (where_clauses (base_query sk ps rs ri))"
    using where_region [of "fts_match cur" e k r sk ps rs ri] by simp
  with n k r show ?L
    unfolding matched_iff by blast
qed












section \<open>The claims about the queries\<close>

text \<open>
  C5. The region filter is inclusive. An entry that the search finds without a region
  filter is still found with the filter \<open>rs\<close> when one of its region codes is in \<open>rs\<close>,
  and also when it has no region association at all, whatever \<open>rs\<close> is.
\<close>

theorem region_filter_inclusive:
  "(e \<in> fst ` set (select_distinct cur (base_query sk ps [] ri))
      \<and> x \<in> set rs \<and> (e_slug e, x) \<in> set (regions_entries (tables cur))
      \<longrightarrow> e \<in> fst ` set (select_distinct cur (base_query sk ps rs ri)))
   \<and> (e' \<in> fst ` set (select_distinct cur (base_query sk ps [] ri))
      \<and> e_slug e' \<notin> fst ` set (regions_entries (tables cur))
      \<longrightarrow> e' \<in> fst ` set (select_distinct cur (base_query sk ps rs ri)))"
proof (cases "rs = []")
  case True
  then show ?thesis by simp
next
  case False
  have none: "\<forall>y. (e_slug e', y) \<notin> set (regions_entries (tables cur))"
    if "e_slug e' \<notin> fst ` set (regions_entries (tables cur))"
    using that by force
  show ?thesis
    unfolding region_filter_iff [OF False] using none by blast
qed

theorem region_filter_inclusive_witness:
  "mario_kart \<in> fst ` set (select_distinct (cursor_on kart_db) (base_query None [] [] None))
   \<and> str ''US'' \<in> set [str ''US'']
   \<and> (e_slug mario_kart, str ''US'') \<in> set (regions_entries (tables (cursor_on kart_db)))
   \<and> tetris \<in> fst ` set (select_distinct (cursor_on kart_db) (base_query None [] [] None))
   \<and> e_slug tetris \<notin> fst ` set (regions_entries (tables (cursor_on kart_db)))
   \<and> mario_kart
       \<in> fst ` set (select_distinct (cursor_on kart_db) (base_query None [] [str ''US''] None))
   \<and> tetris
       \<in> fst ` set (select_distinct (cursor_on kart_db) (base_query None [] [str ''US''] None))"
proof -
  have h1: "mario_kart \<in> fst ` set (select_distinct (cursor_on kart_db) (base_query None [] [] None))"
    by (simp add: kart_db_unfiltered)
  have h2: "str ''US'' \<in> set [str ''US'']"
    by simp
  have h3: "(e_slug mario_kart, str ''US'') \<in> set (regions_entries (tables (cursor_on kart_db)))"
    by (simp add: cursor_on_def kart_db_def mario_kart_def)
  have h4: "tetris \<in> fst ` set (select_distinct (cursor_on kart_db) (base_query None [] [] None))"
    by (simp add: kart_db_unfiltered)
  have h5: "e_slug tetris \<notin> fst ` set (regions_entries (tables (cursor_on kart_db)))"
    by (simp add: cursor_on_def kart_db_def tetris_def str_def)
  from region_filter_inclusive [where e = mario_kart and cur = "cursor_on kart_db"
      and sk = None and ps = "[]" and ri = None and x = "str ''US''" and rs = "[str ''US'']"
      and e' = tetris] h1 h2 h3 h4 h5
  show ?thesis by blast
qed



end
